theory Spec2Isabelle
  imports Main
begin

section \<open>The CSV search debugging script: data model\<close>

text \<open>
  The script \<^verbatim>\<open>debug_csv_search.py\<close> reads an employee roster, groups its rows by
  department, builds one text document per department, hands the documents to a text
  splitter and a vector store, and runs four probe queries.

  A Python \<^verbatim>\<open>str\<close> is a sequence of Unicode code points, and \<^verbatim>\<open>len\<close> and slicing count
  code points. Most literals of the script are Japanese, so a string is modelled as the
  list of its code points. \<open>ascii\<close> embeds an ASCII literal.
\<close>

type_synonym pystr = "nat list"

definition ascii :: "string \<Rightarrow> pystr" where
  "ascii s = map of_char s"

text \<open>
  A value stored in a row. \<^verbatim>\<open>csv.DictReader\<close> stores a \<^verbatim>\<open>str\<close> for every cell of a
  row and \<^verbatim>\<open>None\<close> for every header column that a short row does not reach. (Surplus
  cells of a long row are collected under the key \<^verbatim>\<open>None\<close>, which the script never
  looks up; rows are modelled on their string keys.)
\<close>

datatype pyval = PyNone | PyStr pystr

type_synonym row = "pystr \<rightharpoonup> pyval"

text \<open>\<^verbatim>\<open>row.get(key, default)\<close>.\<close>

definition dict_get :: "('k \<rightharpoonup> 'v) \<Rightarrow> 'k \<Rightarrow> 'v \<Rightarrow> 'v" where
  "dict_get d k dflt = (case d k of Some v \<Rightarrow> v | None \<Rightarrow> dflt)"

text \<open>What an f-string writes for \<^verbatim>\<open>{v}\<close>: the string itself, or \<^verbatim>\<open>None\<close> spelled out.\<close>

fun fmt :: "pyval \<Rightarrow> pystr" where
  "fmt (PyStr s) = s"
| "fmt PyNone = ascii ''None''"

text \<open>\<^verbatim>\<open>langchain.schema.Document\<close>: a page content and a metadata dictionary.\<close>

record document =
  page_content :: pystr
  metadata :: "pystr \<rightharpoonup> pyval"

datatype exn = KeyError | OSError | UnicodeDecodeError | CsvError | CollaboratorError

subsection \<open>Constants and literals\<close>

definition CHUNK_SIZE :: nat where "CHUNK_SIZE = 500"
definition CHUNK_OVERLAP :: nat where "CHUNK_OVERLAP = 50"
definition RETRIEVER_SEARCH_K :: nat where "RETRIEVER_SEARCH_K = 5"

definition NL :: nat where "NL = 0x0A"

text \<open>
  \<^verbatim>\<open>os.path.join(DATA_DIR_PATH, <dir>, <file>.csv)\<close> with the POSIX separator:
  \<^verbatim>\<open>./data/\<close>, the directory name (six code points), \<^verbatim>\<open>/\<close>, the file name (four
  code points) and \<^verbatim>\<open>.csv\<close>.
\<close>

definition csv_path :: pystr where
  "csv_path = ascii ''./data/'' @ [0x793E, 0x54E1, 0x306B, 0x3064, 0x3044, 0x3066]
     @ ascii ''/'' @ [0x793E, 0x54E1, 0x540D, 0x7C3F] @ ascii ''.csv''"

text \<open>The column names the script reads (lines 41 and 56 to 64), as code points.\<close>

definition col_department :: pystr where "col_department = [0x90E8, 0x7F72]"
definition col_id :: pystr where "col_id = [0x793E, 0x54E1] @ ascii ''ID''"
definition col_name :: pystr where
  "col_name = [0x6C0F, 0x540D] @ ascii ''('' @ [0x30D5, 0x30EB, 0x30CD, 0x30FC, 0x30E0] @ ascii '')''"
definition col_gender :: pystr where "col_gender = [0x6027, 0x5225]"
definition col_age :: pystr where "col_age = [0x5E74, 0x9F62]"
definition col_category :: pystr where "col_category = [0x5F93, 0x696D, 0x54E1, 0x533A, 0x5206]"
definition col_position :: pystr where "col_position = [0x5F79, 0x8077]"
definition col_skills :: pystr where "col_skills = [0x30B9, 0x30AD, 0x30EB, 0x30BB, 0x30C3, 0x30C8]"
definition col_certs :: pystr where "col_certs = [0x4FDD, 0x6709, 0x8CC7, 0x683C]"

text \<open>The default of line 41 (two code points, "unknown").\<close>

definition unknown :: pystr where "unknown = [0x4E0D, 0x660E]"

text \<open>The labels of lines 56 to 64: the word before \<^verbatim>\<open>: \<close> in each piece.\<close>

definition lbl_name :: pystr where "lbl_name = [0x6C0F, 0x540D]"

text \<open>The unit written after the age (line 59, one code point).\<close>

definition age_unit :: pystr where "age_unit = [0x6B73]"

text \<open>Line 53: an opening bracket, the department, seven code points and a closing bracket.\<close>

definition header_open :: pystr where "header_open = [0x3010]"
definition header_close :: pystr where
  "header_close = [0x306E, 0x5F93, 0x696D, 0x54E1, 0x4E00, 0x89A7, 0x3011]"

definition metadata_source :: pystr where "metadata_source = ascii ''source''"
definition metadata_department :: pystr where "metadata_department = ascii ''department''"

section \<open>Grouping rows by department (lines 39 to 44)\<close>

text \<open>
  \<^verbatim>\<open>dept_groups\<close> is a Python dictionary, iterated later in insertion order: an
  association list with distinct keys, new keys at the end.
\<close>

type_synonym dept_dict = "(pyval \<times> row list) list"

definition dict_contains :: "('k \<times> 'v) list \<Rightarrow> 'k \<Rightarrow> bool" where
  "dict_contains d k = (k \<in> set (map fst d))"

text \<open>\<^verbatim>\<open>d[k] = v\<close>: overwrite in place, or append a new entry.\<close>

fun dict_setitem :: "('k \<times> 'v) list \<Rightarrow> 'k \<Rightarrow> 'v \<Rightarrow> ('k \<times> 'v) list" where
  "dict_setitem [] k v = [(k, v)]"
| "dict_setitem ((k', v') # d) k v =
     (if k' = k then (k, v) # d else (k', v') # dict_setitem d k v)"

text \<open>\<^verbatim>\<open>d[k].append(x)\<close>: the lookup raises \<^verbatim>\<open>KeyError\<close> on a missing key.\<close>

fun dict_append :: "('k \<times> 'a list) list \<Rightarrow> 'k \<Rightarrow> 'a \<Rightarrow> exn + ('k \<times> 'a list) list" where
  "dict_append [] k x = Inl KeyError"
| "dict_append ((k', xs) # d) k x =
     (if k' = k then Inr ((k', xs @ [x]) # d)
      else (case dict_append d k x of
              Inl e \<Rightarrow> Inl e
            | Inr d' \<Rightarrow> Inr ((k', xs) # d')))"

text \<open>Line 41: the department of a row, with the default for a row without the column.\<close>

definition dept_of :: "row \<Rightarrow> pyval" where
  "dept_of r = dict_get r col_department (PyStr unknown)"

text \<open>The body of the loop of lines 40 to 44.\<close>

definition group_step :: "dept_dict \<Rightarrow> row \<Rightarrow> exn + dept_dict" where
  "group_step dept_groups r =
     (let dept = dept_of r;
          d' = (if \<not> dict_contains dept_groups dept
                then dict_setitem dept_groups dept [] else dept_groups)
      in dict_append d' dept r)"

fun group_rows :: "dept_dict \<Rightarrow> row list \<Rightarrow> exn + dept_dict" where
  "group_rows dept_groups [] = Inr dept_groups"
| "group_rows dept_groups (r # rows) =
     (case group_step dept_groups r of
        Inl e \<Rightarrow> Inl e
      | Inr d' \<Rightarrow> group_rows d' rows)"

section \<open>Building the documents (lines 51 to 70)\<close>

text \<open>\<^verbatim>\<open>sep.join(parts)\<close>.\<close>

fun join :: "'a list \<Rightarrow> 'a list list \<Rightarrow> 'a list" where
  "join sep [] = []"
| "join sep [x] = x"
| "join sep (x # y # ys) = x @ sep @ join sep (y # ys)"

text \<open>One \<^verbatim>\<open>label: value\<close> piece of lines 56 to 64, with what follows the value.\<close>

definition field :: "pystr \<Rightarrow> pystr \<Rightarrow> pystr \<Rightarrow> row \<Rightarrow> pystr" where
  "field label col suffix emp =
     label @ ascii '': '' @ fmt (dict_get emp col (PyStr [])) @ suffix"

definition emp_info :: "row \<Rightarrow> pystr" where
  "emp_info emp =
     field col_id col_id (ascii '', '') emp
     @ field lbl_name col_name (ascii '', '') emp
     @ field col_gender col_gender (ascii '', '') emp
     @ field col_age col_age (age_unit @ ascii '', '') emp
     @ field col_category col_category (ascii '', '') emp
     @ field col_department col_department (ascii '', '') emp
     @ field col_position col_position (ascii '', '') emp
     @ field col_skills col_skills (ascii '', '') emp
     @ field col_certs col_certs [] emp"

text \<open>Line 53 without its final newline: the header line of a department.\<close>

definition header_line :: "pyval \<Rightarrow> pystr" where
  "header_line dept = header_open @ fmt dept @ header_close"

text \<open>Lines 53 to 69: the document of one department.\<close>

definition make_document :: "pyval \<Rightarrow> row list \<Rightarrow> document" where
  "make_document dept employees =
     (let content_lines = [header_line dept @ [NL]] @ map emp_info employees;
          content = join [NL] content_lines
      in \<lparr> page_content = content,
           metadata = [metadata_source \<mapsto> PyStr csv_path, metadata_department \<mapsto> dept] \<rparr>)"

definition build_docs :: "dept_dict \<Rightarrow> document list" where
  "build_docs dept_groups = map (\<lambda>(dept, employees). make_document dept employees) dept_groups"

section \<open>The loader\<close>

text \<open>
  What the loader finds at \<open>csv_path\<close>: no file; a file that \<^verbatim>\<open>open\<close>, the decoder or
  the CSV reader rejects, with the exception that is raised (\<^verbatim>\<open>OSError\<close> from
  \<^verbatim>\<open>open\<close>, \<^verbatim>\<open>UnicodeDecodeError\<close> from the decoder, \<^verbatim>\<open>csv.Error\<close> from the reader;
  nothing catches it); or a table, given as the rows \<^verbatim>\<open>list(csv.DictReader(f))\<close>
  returns.
\<close>

datatype source = Missing | Unreadable exn | Table "row list"

text \<open>The console transcript: one constructor for each \<^verbatim>\<open>print\<close> of the script.\<close>

datatype report =
    CsvNotFound pystr
  | CsvLoading pystr
  | RowsRead nat
  | DeptsClassified nat
  | DeptSize pyval nat
  | DocsCreated nat
  | SampleTitle
  | SampleDept pyval
  | SampleContent pystr
  | CreatingStore
  | ChunksSplit nat
  | StoreCreated
  | SearchQuery pystr
  | ResultsFound nat
  | ResultTitle nat
  | ResultDept pyval
  | ResultContent pystr
  | Rule
  | Title
  | NoDocuments
  | RuleAfterBlank
  | DebugDone

text \<open>Lines 75 to 78: the sample of the first document.\<close>

definition sample :: "document list \<Rightarrow> exn + report list" where
  "sample docs =
     (case docs of
        [] \<Rightarrow> Inr []
      | d # _ \<Rightarrow>
          (case metadata d metadata_department of
             None \<Rightarrow> Inl KeyError
           | Some dept \<Rightarrow>
               Inr [SampleTitle, SampleDept dept, SampleContent (take 500 (page_content d))]))"

text \<open>\<^verbatim>\<open>load_employee_csv\<close>: what it prints, and what it returns or raises.\<close>

definition load_employee_csv :: "source \<Rightarrow> report list \<times> (exn + document list)" where
  "load_employee_csv src =
     (case src of
        Missing \<Rightarrow> ([CsvNotFound csv_path], Inr [])
      | Unreadable e \<Rightarrow> ([CsvLoading csv_path], Inl e)
      | Table rows \<Rightarrow>
          (let out1 = [CsvLoading csv_path, RowsRead (length rows)] in
           case group_rows [] rows of
             Inl e \<Rightarrow> (out1, Inl e)
           | Inr dept_groups \<Rightarrow>
               (let out2 = out1 @ [DeptsClassified (length dept_groups)]
                            @ map (\<lambda>(dept, employees). DeptSize dept (length employees)) dept_groups;
                    docs = build_docs dept_groups;
                    out3 = out2 @ [DocsCreated (length docs)]
                in case sample docs of
                     Inl e \<Rightarrow> (out3, Inl e)
                   | Inr out4 \<Rightarrow> (out3 @ out4, Inr docs))))"

section \<open>The vector store, the search test and the main function\<close>

text \<open>
  The text splitter, the embedding model and the vector store are libraries outside the
  repository. The script is modelled over any behaviour of theirs: each call returns a
  result or raises.
\<close>

record 'vs collaborators =
  split_documents :: "document list \<Rightarrow> exn + document list"
  new_embeddings :: "exn + unit"
  from_documents :: "document list \<Rightarrow> exn + 'vs"
  invoke :: "'vs \<Rightarrow> pystr \<Rightarrow> exn + document list"

text \<open>What a run does, in order: it prints, or it calls a collaborator.\<close>

datatype event =
    Print report
  | SplitDocuments "document list"
  | NewEmbeddings
  | FromDocuments "document list"
  | Invoke pystr

fun is_print :: "event \<Rightarrow> bool" where
  "is_print (Print _) = True"
| "is_print _ = False"

text \<open>\<^verbatim>\<open>create_vector_store\<close> (lines 82 to 106).\<close>

definition create_vector_store ::
  "'vs collaborators \<Rightarrow> document list \<Rightarrow> event list \<times> (exn + 'vs)" where
  "create_vector_store ext docs =
     (let t1 = [Print CreatingStore, SplitDocuments docs] in
      case split_documents ext docs of
        Inl e \<Rightarrow> (t1, Inl e)
      | Inr texts \<Rightarrow>
          (let t2 = t1 @ [Print (ChunksSplit (length texts)), NewEmbeddings] in
           case new_embeddings ext of
             Inl e \<Rightarrow> (t2, Inl e)
           | Inr _ \<Rightarrow>
               (let t3 = t2 @ [FromDocuments texts] in
                case from_documents ext texts of
                  Inl e \<Rightarrow> (t3, Inl e)
                | Inr vectorstore \<Rightarrow> (t3 @ [Print StoreCreated], Inr vectorstore))))"

text \<open>Lines 123 to 126: the report of the \<open>i\<close>-th result.\<close>

definition result_report :: "nat \<Rightarrow> document \<Rightarrow> event list" where
  "result_report i doc =
     [Print (ResultTitle i),
      Print (ResultDept (dict_get (metadata doc) metadata_department (PyStr (ascii ''N/A'')))),
      Print (ResultContent (take 300 (page_content doc)))]"

text \<open>\<^verbatim>\<open>test_search\<close> (lines 108 to 128).\<close>

definition test_search ::
  "'vs collaborators \<Rightarrow> 'vs \<Rightarrow> pystr \<Rightarrow> event list \<times> (exn + document list)" where
  "test_search ext vectorstore query =
     (let t1 = [Print (SearchQuery query), Invoke query] in
      case invoke ext vectorstore query of
        Inl e \<Rightarrow> (t1, Inl e)
      | Inr results \<Rightarrow>
          (t1 @ [Print (ResultsFound (length results))]
              @ concat (map (\<lambda>(i, doc). result_report i doc)
                          (zip [1 ..< Suc (length results)] results)),
           Inr results))"

text \<open>The probe queries of lines 146 to 151.\<close>

definition test_queries :: "pystr list" where
  "test_queries =
     [[0x4EBA, 0x4E8B, 0x90E8, 0x306B, 0x6240, 0x5C5E, 0x3057, 0x3066, 0x3044, 0x308B,
       0x5F93, 0x696D, 0x54E1],
      [0x4EBA, 0x4E8B, 0x90E8],
      [0x55B6, 0x696D, 0x90E8, 0x306E, 0x793E, 0x54E1],
      ascii ''IT'' @ [0x90E8, 0x306E, 0x30B9, 0x30BF, 0x30C3, 0x30D5]]"

text \<open>The loop of lines 153 and 154; an exception ends it.\<close>

fun run_queries :: "'vs collaborators \<Rightarrow> 'vs \<Rightarrow> pystr list \<Rightarrow> event list \<times> exn option" where
  "run_queries ext vectorstore [] = ([], None)"
| "run_queries ext vectorstore (q # qs) =
     (case test_search ext vectorstore q of
        (t, Inl e) \<Rightarrow> (t, Some e)
      | (t, Inr _) \<Rightarrow>
          (case run_queries ext vectorstore qs of (t', r) \<Rightarrow> (t @ t', r)))"

text \<open>How a run of \<^verbatim>\<open>main\<close> ends: it returns, or an exception leaves it.\<close>

datatype outcome = Returned | Raised exn

text \<open>\<^verbatim>\<open>main\<close> (lines 130 to 158).\<close>

definition main :: "'vs collaborators \<Rightarrow> source \<Rightarrow> event list \<times> outcome" where
  "main ext src =
     (let t0 = [Print Rule, Print Title, Print Rule] in
      case load_employee_csv src of
        (out, Inl e) \<Rightarrow> (t0 @ map Print out, Raised e)
      | (out, Inr docs) \<Rightarrow>
          (let t1 = t0 @ map Print out in
           if docs = [] then (t1 @ [Print NoDocuments], Returned)
           else
             (case create_vector_store ext docs of
                (t2, Inl e) \<Rightarrow> (t1 @ t2, Raised e)
              | (t2, Inr vectorstore) \<Rightarrow>
                  (case run_queries ext vectorstore test_queries of
                     (t3, Some e) \<Rightarrow> (t1 @ t2 @ t3, Raised e)
                   | (t3, None) \<Rightarrow>
                       (t1 @ t2 @ t3 @ [Print RuleAfterBlank, Print DebugDone, Print Rule],
                        Returned)))))"

section \<open>Specification vocabulary\<close>

text \<open>The distinct elements of a list, in the order in which each occurs first.\<close>

fun first_occurrences :: "'a list \<Rightarrow> 'a list" where
  "first_occurrences [] = []"
| "first_occurrences (x # xs) = x # filter (\<lambda>y. y \<noteq> x) (first_occurrences xs)"

text \<open>
  The grouping as a specification: one bucket for each department, in the order of first
  occurrence, holding the rows of that department in row order.
\<close>

definition grouped :: "row list \<Rightarrow> dept_dict" where
  "grouped rows =
     map (\<lambda>k. (k, filter (\<lambda>r. dept_of r = k) rows)) (first_occurrences (map dept_of rows))"

definition bucket_total :: "('k \<times> 'a list) list \<Rightarrow> nat" where
  "bucket_total d = sum_list (map (\<lambda>(k, xs). length xs) d)"

text \<open>
  The line of one employee as a table: label, column and the unit written after the
  value, in the order of lines 56 to 64. \<open>pair_text\<close> is one \<^verbatim>\<open>label: value\<close> pair.
\<close>

definition info_fields :: "(pystr \<times> pystr \<times> pystr) list" where
  "info_fields =
     [(col_id, col_id, []), (lbl_name, col_name, []), (col_gender, col_gender, []),
      (col_age, col_age, age_unit), (col_category, col_category, []),
      (col_department, col_department, []), (col_position, col_position, []),
      (col_skills, col_skills, []), (col_certs, col_certs, [])]"

fun pair_text :: "row \<Rightarrow> pystr \<times> pystr \<times> pystr \<Rightarrow> pystr" where
  "pair_text emp (label, col, unit) =
     label @ ascii '': '' @ fmt (dict_get emp col (PyStr [])) @ unit"

section \<open>The grouping loop computes the specification\<close>

lemma set_first_occurrences [simp]: "set (first_occurrences xs) = set xs"
  by (induction xs) auto

lemma distinct_first_occurrences [simp]: "distinct (first_occurrences xs)"
  by (induction xs) auto

lemma first_occurrences_snoc:
  "first_occurrences (xs @ [x]) =
     (if x \<in> set xs then first_occurrences xs else first_occurrences xs @ [x])"
  by (induction xs) auto

lemma dict_setitem_absent:
  "k \<notin> set (map fst d) \<Longrightarrow> dict_setitem d k v = d @ [(k, v)]"
  by (induction d) auto

lemma dict_append_last:
  "k \<notin> set (map fst d) \<Longrightarrow> dict_append (d @ [(k, xs)]) k x = Inr (d @ [(k, xs @ [x])])"
  by (induction d) auto

text \<open>Appending under a key that is present changes that bucket only.\<close>

lemma dict_append_present:
  "distinct ks \<Longrightarrow> k \<in> set ks \<Longrightarrow>
   dict_append (map (\<lambda>k'. (k', f k')) ks) k x =
     Inr (map (\<lambda>k'. (k', if k' = k then f k' @ [x] else f k')) ks)"
proof (induction ks)
  case Nil
  then show ?case by simp
next
  case (Cons a ks)
  show ?case
  proof (cases "a = k")
    case True
    with Cons.prems have "k \<notin> set ks" by simp
    then have "map (\<lambda>k'. (k', if k' = k then f k' @ [x] else f k')) ks = map (\<lambda>k'. (k', f k')) ks"
      by (intro map_cong) auto
    with True show ?thesis by simp
  next
    case False
    with Cons show ?thesis by simp
  qed
qed

lemma group_rows_snoc:
  "group_rows d (rows @ [r]) =
     (case group_rows d rows of Inl e \<Rightarrow> Inl e | Inr d' \<Rightarrow> group_step d' r)"
  by (induction rows arbitrary: d) (auto split: sum.splits)

text \<open>One more row: the \<^verbatim>\<open>KeyError\<close> of line 44 cannot happen.\<close>

lemma group_step_grouped: "group_step (grouped rows) r = Inr (grouped (rows @ [r]))"
proof (cases "dept_of r \<in> set (map dept_of rows)")
  case True
  let ?ks = "first_occurrences (map dept_of rows)"
  have c: "dict_contains (grouped rows) (dept_of r)"
    using True by (simp add: dict_contains_def grouped_def comp_def)
  have "dict_append (grouped rows) (dept_of r) r =
          Inr (map (\<lambda>k'. (k', if k' = dept_of r then filter (\<lambda>r. dept_of r = k') rows @ [r]
                                else filter (\<lambda>r. dept_of r = k') rows)) ?ks)"
    unfolding grouped_def using True by (intro dict_append_present) simp_all
  also have "(map (\<lambda>k'. (k', if k' = dept_of r then filter (\<lambda>r. dept_of r = k') rows @ [r]
                                else filter (\<lambda>r. dept_of r = k') rows)) ?ks) = grouped (rows @ [r])"
    using True by (auto simp: grouped_def first_occurrences_snoc)
  finally show ?thesis using c by (simp add: group_step_def)
next
  case False
  let ?ks = "first_occurrences (map dept_of rows)"
  have nc: "\<not> dict_contains (grouped rows) (dept_of r)"
    using False by (simp add: dict_contains_def grouped_def comp_def)
  have absent: "dept_of r \<notin> set (map fst (grouped rows))"
    using False by (simp add: grouped_def comp_def)
  have e: "filter (\<lambda>r'. dept_of r' = dept_of r) rows = []"
    using False by (induction rows) auto
  have "map (\<lambda>k. (k, filter (\<lambda>r'. dept_of r' = k) (rows @ [r]))) ?ks = grouped rows"
    unfolding grouped_def using False by (intro map_cong) auto
  then have g: "grouped (rows @ [r]) = grouped rows @ [(dept_of r, [r])]"
    using False e by (simp add: grouped_def first_occurrences_snoc)
  show ?thesis
    using nc by (simp add: group_step_def dict_setitem_absent [OF absent] dict_append_last [OF absent] g)
qed

lemma group_rows_grouped: "group_rows [] rows = Inr (grouped rows)"
proof (induction rows rule: rev_induct)
  case Nil
  show ?case by (simp add: grouped_def)
next
  case (snoc r rows)
  then show ?case by (simp add: group_rows_snoc group_step_grouped)
qed

lemma grouped_nonempty: "(k, rs) \<in> set (grouped rows) \<Longrightarrow> rs \<noteq> []"
  by (auto simp: grouped_def filter_empty_conv)

subsection \<open>Counting\<close>

lemma dict_append_total:
  "dict_append d k x = Inr d' \<Longrightarrow> bucket_total d' = Suc (bucket_total d)"
  by (induction d arbitrary: d') (auto simp: bucket_total_def split: if_splits sum.splits)

lemma dict_setitem_total:
  "\<not> dict_contains d k \<Longrightarrow> bucket_total (dict_setitem d k []) = bucket_total d"
  by (simp add: dict_contains_def dict_setitem_absent bucket_total_def)

lemma group_step_total:
  "group_step d r = Inr d' \<Longrightarrow> bucket_total d' = Suc (bucket_total d)"
  by (auto simp: group_step_def Let_def dict_setitem_total dest!: dict_append_total split: if_splits)

lemma group_rows_total:
  "group_rows d rows = Inr d' \<Longrightarrow> bucket_total d' = bucket_total d + length rows"
  by (induction rows arbitrary: d) (auto split: sum.splits dest!: group_step_total)

text \<open>The buckets of the specification are keyed by the departments of the rows.\<close>

lemma keys_grouped: "map fst (grouped rows) = first_occurrences (map dept_of rows)"
  by (simp add: grouped_def comp_def)

lemma grouped_by_keys:
  "grouped rows = map (\<lambda>k. (k, filter (\<lambda>r. dept_of r = k) rows)) (map fst (grouped rows))"
  by (simp add: grouped_def comp_def)

text \<open>
  C1: grouping neither drops nor duplicates a row. For every list of rows the loop of
  lines 39 to 44 ends without an exception; the keys of the buckets are distinct and are
  the departments that occur among the rows; the bucket of a key holds exactly the rows
  of that department, as often and in the order in which they were read, so every row
  lies in the bucket of its own department and in no other; and the sizes of the buckets
  add up to the number of rows.
\<close>

theorem grouping_preserves_count:
  "\<exists>dept_groups. group_rows [] rows = Inr dept_groups
     \<and> distinct (map fst dept_groups)
     \<and> set (map fst dept_groups) = set (map dept_of rows)
     \<and> dept_groups =
         map (\<lambda>k. (k, filter (\<lambda>r. dept_of r = k) rows)) (map fst dept_groups)
     \<and> sum_list (map (\<lambda>(dept, employees). length employees) dept_groups) = length rows"
proof -
  have "bucket_total (grouped rows) = bucket_total ([] :: dept_dict) + length rows"
    by (rule group_rows_total [OF group_rows_grouped])
  then have total: "sum_list (map (\<lambda>(dept, employees). length employees) (grouped rows))
                      = length rows"
    by (simp add: bucket_total_def)
  have keys: "distinct (map fst (grouped rows))"
    "set (map fst (grouped rows)) = set (map dept_of rows)"
    by (simp_all add: keys_grouped)
  show ?thesis
  proof (intro exI conjI)
    show "group_rows [] rows = Inr (grouped rows)" by (rule group_rows_grouped)
    show "distinct (map fst (grouped rows))" by (rule keys(1))
    show "set (map fst (grouped rows)) = set (map dept_of rows)" by (rule keys(2))
    show "grouped rows =
            map (\<lambda>k. (k, filter (\<lambda>r. dept_of r = k) rows)) (map fst (grouped rows))"
      by (rule grouped_by_keys)
    show "sum_list (map (\<lambda>(dept, employees). length employees) (grouped rows)) = length rows"
      by (rule total)
  qed
qed

section \<open>The content of a document\<close>

lemma join_Cons: "xs \<noteq> [] \<Longrightarrow> join sep (x # xs) = x @ sep @ join sep xs"
  by (cases xs) simp_all

lemma emp_info_join: "emp_info emp = join (ascii '', '') (map (pair_text emp) info_fields)"
  by (simp add: emp_info_def field_def info_fields_def)

text \<open>
  C2 as stated: the page content is the header line followed by one line for each row, the
  lines joined by newlines. It fails already for a bucket of one row without columns: the
  header of line 53 ends in a newline of its own, so the join puts an empty line after it.
\<close>

theorem single_header_line_counterexample:
  "page_content (make_document (PyStr unknown) [Map.empty])
     \<noteq> join [NL] (header_line (PyStr unknown) # map emp_info [Map.empty])"
  by (simp add: make_document_def)

text \<open>
  C2, amended: for every non-empty bucket the page content is the header line, a newline,
  an empty line, and then the texts of the rows in bucket order joined by newlines; the
  text of a row is its nine \<^verbatim>\<open>label: value\<close> pairs in the fixed order of \<open>info_fields\<close>
  joined by comma and space, where the age is followed by its unit, an absent column
  gives the empty value and \<^verbatim>\<open>None\<close> is spelled out.
\<close>

theorem document_content_format:
  assumes "employees \<noteq> []"
  shows "page_content (make_document dept employees) =
           header_line dept @ [NL] @ [NL]
           @ join [NL] (map (\<lambda>emp. join (ascii '', '') (map (pair_text emp) info_fields)) employees)"
proof -
  have "(\<lambda>emp. join (ascii '', '') (map (pair_text emp) info_fields)) = emp_info"
    by (rule ext) (rule emp_info_join [symmetric])
  then show ?thesis
    using assms by (simp add: make_document_def join_Cons)
qed

theorem document_content_format_witness:
  "page_content (make_document (PyStr unknown) [Map.empty]) =
           header_line (PyStr unknown) @ [NL] @ [NL]
           @ join [NL] (map (\<lambda>emp. join (ascii '', '') (map (pair_text emp) info_fields)) [Map.empty])"
  using document_content_format [of "[Map.empty]" "PyStr unknown"] by simp

section \<open>The fallback department\<close>







section \<open>The loader on a table\<close>




section \<open>Runs that stop before the vector store\<close>

text \<open>
  C7: on a table without rows the loader returns the empty list without an exception, and
  \<^verbatim>\<open>main\<close> prints that no document could be created and returns; whatever the
  collaborators would do, the run calls none of them.
\<close>

theorem empty_table_aborts:
  "load_employee_csv (Table []) =
     ([CsvLoading csv_path, RowsRead 0, DeptsClassified 0, DocsCreated 0], Inr [])
   \<and> main ext (Table []) =
     ([Print Rule, Print Title, Print Rule, Print (CsvLoading csv_path), Print (RowsRead 0),
       Print (DeptsClassified 0), Print (DocsCreated 0), Print NoDocuments], Returned)"
  by (simp add: main_def load_employee_csv_def build_docs_def sample_def)

text \<open>
  C8 as stated: without a source file the load operation fails. It does not fail: the
  guard of lines 26 to 28 returns the empty list, the value of an ordinary load.
\<close>

theorem missing_source_returns_empty_counterexample:
  "snd (load_employee_csv Missing) = Inr []"
  by (simp add: load_employee_csv_def)

text \<open>
  C8, amended: without a source file the loader prints that the file was not found, with
  its path, and returns the empty list; \<^verbatim>\<open>main\<close> then prints that no document could be
  created and returns, and the run calls no collaborator.
\<close>

theorem missing_source_aborts:
  "load_employee_csv Missing = ([CsvNotFound csv_path], Inr [])
   \<and> main ext Missing =
     ([Print Rule, Print Title, Print Rule, Print (CsvNotFound csv_path), Print NoDocuments],
      Returned)"
  by (simp add: main_def load_employee_csv_def)

text \<open>
  C9: the loader returns the same value, the empty list, for a missing file and for a
  table without rows, and raises in neither case; \<^verbatim>\<open>main\<close> takes the same branch for
  both: it ends with the same message, returns, and calls no collaborator.
\<close>

theorem missing_and_empty_indistinguishable:
  "snd (load_employee_csv Missing) = Inr []
   \<and> snd (load_employee_csv (Table [])) = snd (load_employee_csv Missing)
   \<and> snd (main ext Missing) = Returned
   \<and> snd (main ext (Table [])) = Returned
   \<and> last (fst (main ext Missing)) = Print NoDocuments
   \<and> last (fst (main ext (Table []))) = Print NoDocuments
   \<and> filter (\<lambda>e. \<not> is_print e) (fst (main ext Missing)) = []
   \<and> filter (\<lambda>e. \<not> is_print e) (fst (main ext (Table []))) = []"
  by (simp add: main_def load_employee_csv_def build_docs_def sample_def)

end
